theory Spec2Isabelle
  imports Main "HOL-Library.Word" "HOL-Library.Signed_Division" "HOL-Library.Monad_Syntax"
begin

unbundle bit_operations_syntax

section \<open>The machine: the memory of the process\<close>

text \<open>
  The embedding follows \<^verbatim>\<open>src/Malloc and Free/src/mem.c\<close> on the platform its own comments
  describe: \<^verbatim>\<open>current + 1\<close> is "really + 8 since block header" (line 156), so a pointer and an
  \<^verbatim>\<open>int\<close> are four bytes each, \<^verbatim>\<open>sizeof(block_header)\<close> is 8, the member \<^verbatim>\<open>next\<close> lies at
  offset 0 of a header and \<^verbatim>\<open>size_status\<close> at offset 4. Both C types are 32-bit words; the
  arithmetic wraps, comparisons of \<^verbatim>\<open>int\<close> are signed.

  Memory is the byte-addressed memory of the whole process, little-endian. The code
  reads and writes it through pointers it never checks, so a 4-byte access may be at any
  address, aligned or not, inside the region obtained by \<^verbatim>\<open>mmap\<close> or anywhere else: it
  yields the bytes that are there as long as the four bytes are readable (writable, for
  a store), and the operating system ends the process otherwise (\<open>Fault\<close>; a faulted
  call has no later state). The two variables of the program, the global \<^verbatim>\<open>list_head\<close>
  and the static \<^verbatim>\<open>allocated_once\<close>, are cells of that same memory, at the addresses
  the linker gave them: a store through a stray pointer can hit them. The local
  variables of a running function are taken to be in registers.
\<close>

type_synonym word32 = "32 word"
type_synonym addr = "32 word"
type_synonym byte = "8 word"

record machine =
  mem :: "addr \<Rightarrow> byte"
  readable :: "addr \<Rightarrow> bool"
  writable :: "addr \<Rightarrow> bool"
  addr_list_head :: addr
  addr_allocated_once :: addr
  region_base :: addr
  region_size :: nat

definition NULL :: addr where
  "NULL = 0"

definition sizeof_block_header :: word32 where
  "sizeof_block_header = 8"

text \<open>The \<open>n\<close> bytes from \<open>base\<close> on.\<close>

definition in_range :: "addr \<Rightarrow> nat \<Rightarrow> addr \<Rightarrow> bool" where
  "in_range base n a \<longleftrightarrow> unat (a - base) < n"

definition load :: "machine \<Rightarrow> addr \<Rightarrow> word32 option" where
  "load s a =
    (if readable s a \<and> readable s (a + 1) \<and> readable s (a + 2) \<and> readable s (a + 3)
     then Some (ucast (mem s a) OR push_bit 8 (ucast (mem s (a + 1))) OR
                push_bit 16 (ucast (mem s (a + 2))) OR push_bit 24 (ucast (mem s (a + 3))))
     else None)"

definition store :: "machine \<Rightarrow> addr \<Rightarrow> word32 \<Rightarrow> machine option" where
  "store s a v =
    (if writable s a \<and> writable s (a + 1) \<and> writable s (a + 2) \<and> writable s (a + 3)
     then Some (s\<lparr>mem := (mem s)(a := ucast v, a + 1 := ucast (drop_bit 8 v),
                                  a + 2 := ucast (drop_bit 16 v),
                                  a + 3 := ucast (drop_bit 24 v))\<rparr>)
     else None)"

text \<open>The two variables of the program, read from their cells.\<close>

definition list_head :: "machine \<Rightarrow> addr option" where
  "list_head s = load s (addr_list_head s)"

definition allocated_once :: "machine \<Rightarrow> word32 option" where
  "allocated_once s = load s (addr_allocated_once s)"

text \<open>The state of the process before any call. One page of data at \<^verbatim>\<open>0x0804a000\<close> is
  mapped and holds the two variables, \<^verbatim>\<open>allocated_once\<close> at \<^verbatim>\<open>0x0804a020\<close> and \<^verbatim>\<open>list_head\<close>
  at \<^verbatim>\<open>0x0804a024\<close>, both zero: \<^verbatim>\<open>list_head = NULL\<close>, \<^verbatim>\<open>allocated_once = 0\<close>.\<close>

definition boot :: machine where
  "boot = \<lparr>mem = (\<lambda>_. 0), readable = in_range 134520832 4096,
           writable = in_range 134520832 4096, addr_list_head = 134520868,
           addr_allocated_once = 134520864, region_base = 0, region_size = 0\<rparr>"

text \<open>The two members of \<^verbatim>\<open>block_header\<close>, read and written through a header pointer.\<close>

definition get_next :: "machine \<Rightarrow> addr \<Rightarrow> addr option" where
  "get_next s p = load s p"

definition get_size_status :: "machine \<Rightarrow> addr \<Rightarrow> word32 option" where
  "get_size_status s p = load s (p + 4)"

definition set_next :: "machine \<Rightarrow> addr \<Rightarrow> addr \<Rightarrow> machine option" where
  "set_next s p v = store s p v"

definition set_size_status :: "machine \<Rightarrow> addr \<Rightarrow> word32 \<Rightarrow> machine option" where
  "set_size_status s p v = store s (p + 4) v"

text \<open>C's \<^verbatim>\<open>%\<close> on two \<^verbatim>\<open>int\<close>s truncates towards zero.\<close>

definition c_rem :: "word32 \<Rightarrow> word32 \<Rightarrow> word32" where
  "c_rem a b = word_of_int (sint a smod sint b)"

text \<open>A call returns a value and leaves a machine, or faults, or (in the model only)
  runs out of the fuel that bounds its list traversal.\<close>

datatype 'a result = Ret 'a machine | Fault | OutOfFuel

fun value_of :: "'a result \<Rightarrow> 'a option" where
  "value_of (Ret v s) = Some v"
| "value_of Fault = None"
| "value_of OutOfFuel = None"

fun machine_of :: "'a result \<Rightarrow> machine option" where
  "machine_of (Ret v s) = Some s"
| "machine_of Fault = None"
| "machine_of OutOfFuel = None"

text \<open>Sequencing of calls in a client program: the next call runs on the machine the
  previous one left.\<close>

fun and_then :: "'a result \<Rightarrow> ('a \<Rightarrow> machine \<Rightarrow> 'b result) \<Rightarrow> 'b result" where
  "and_then (Ret v s) f = f v s"
| "and_then Fault f = Fault"
| "and_then OutOfFuel f = OutOfFuel"

section \<open>Mem_Init (lines 39-92)\<close>

text \<open>What the operating system answers: the page size, whether \<^verbatim>\<open>/dev/zero\<close> opens, and
  the address \<^verbatim>\<open>mmap\<close> returns (\<open>None\<close> for \<^verbatim>\<open>MAP_FAILED\<close>). A mapping of \<^verbatim>\<open>/dev/zero\<close> is
  zero-filled, readable and writable.\<close>

record os =
  pagesize :: word32
  open_ok :: bool
  mmap_result :: "addr option"

definition mmap_zero :: "machine \<Rightarrow> addr \<Rightarrow> nat \<Rightarrow> machine" where
  "mmap_zero s space_ptr n =
     s\<lparr>mem := (\<lambda>a. if in_range space_ptr n a then 0 else mem s a),
       readable := (\<lambda>a. if in_range space_ptr n a then True else readable s a),
       writable := (\<lambda>a. if in_range space_ptr n a then True else writable s a),
       region_base := space_ptr, region_size := n\<rparr>"

definition Mem_Init :: "os \<Rightarrow> machine \<Rightarrow> word32 \<Rightarrow> word32 result" where
  "Mem_Init e s sizeOfRegion =
    (case allocated_once s of
       None \<Rightarrow> Fault
     | Some once \<Rightarrow>
         if 0 \<noteq> once then Ret (- 1) s
         else if sizeOfRegion \<le>s 0 then Ret (- 1) s
         else
           let padsize = c_rem sizeOfRegion (pagesize e);
               padsize = c_rem (pagesize e - padsize) (pagesize e);
               alloc_size = sizeOfRegion + padsize
           in if \<not> open_ok e then Ret (- 1) s
              else case mmap_result e of
                None \<Rightarrow>
                  (case store s (addr_allocated_once s) 0 of
                     None \<Rightarrow> Fault
                   | Some s' \<Rightarrow> Ret (- 1) s')
              | Some space_ptr \<Rightarrow>
                  (case do {
                     s1 \<leftarrow> store (mmap_zero s space_ptr (unat alloc_size))
                            (addr_allocated_once s) 1;
                     s2 \<leftarrow> store s1 (addr_list_head s1) space_ptr;
                     lh \<leftarrow> list_head s2;
                     s3 \<leftarrow> set_next s2 lh NULL;
                     lh' \<leftarrow> list_head s3;
                     set_size_status s3 lh' (alloc_size - sizeof_block_header)
                   } of None \<Rightarrow> Fault | Some s4 \<Rightarrow> Ret 0 s4))"

section \<open>Mem_Alloc (lines 104-160)\<close>

text \<open>The \<^verbatim>\<open>while\<close> loop of lines 124-128. It goes on while the block under \<^verbatim>\<open>current\<close> is
  too small and free, and returns the value of \<^verbatim>\<open>current\<close> at its exit. (\<^verbatim>\<open>previous\<close> is
  assigned in the loop and never read.)\<close>

fun alloc_scan :: "nat \<Rightarrow> machine \<Rightarrow> word32 \<Rightarrow> addr \<Rightarrow> addr result" where
  "alloc_scan 0 s block_size current = OutOfFuel"
| "alloc_scan (Suc n) s block_size current =
    (if current = NULL then Ret current s
     else case get_size_status s current of
       None \<Rightarrow> Fault
     | Some ss \<Rightarrow>
         if ss <s block_size \<and> ss AND 1 \<noteq> 1
         then (case get_next s current of
                 None \<Rightarrow> Fault
               | Some nx \<Rightarrow> alloc_scan n s block_size nx)
         else Ret current s)"

text \<open>Lines 113-116: the rounding of the request.\<close>

definition round_size :: "word32 \<Rightarrow> word32" where
  "round_size size0 =
    (if c_rem size0 4 \<noteq> 0
     then size0 + (sizeof_block_header - size0 mod sizeof_block_header)
     else size0)"

text \<open>Lines 135-158: the split, statement by statement.\<close>

definition alloc_split :: "machine \<Rightarrow> word32 \<Rightarrow> addr \<Rightarrow> (addr \<times> machine) option" where
  "alloc_split s sz current =
    (let block_size = sz + sizeof_block_header;
         split = current + sz
     in do {
       cn \<leftarrow> get_next s current;
       s1 \<leftarrow> (if cn \<noteq> NULL then set_next s split cn else Some s);
       cn1 \<leftarrow> get_next s1 current;
       s2 \<leftarrow> (if cn1 = NULL then set_next s1 split NULL else Some s1);
       s3 \<leftarrow> set_next s2 current split;
       css \<leftarrow> get_size_status s3 current;
       s4 \<leftarrow> set_size_status s3 split (css - block_size);
       s5 \<leftarrow> set_size_status s4 current (sz OR 1);
       Some (current + sizeof_block_header, s5)
     })"

definition Mem_Alloc :: "nat \<Rightarrow> machine \<Rightarrow> word32 \<Rightarrow> addr result" where
  "Mem_Alloc fuel s size0 =
    (case list_head s of
       None \<Rightarrow> Fault
     | Some lh \<Rightarrow>
         if lh = NULL then Ret NULL s
         else
           let sz = round_size size0;
               block_size = sz + sizeof_block_header
           in and_then (alloc_scan fuel s block_size lh) (\<lambda>current s'.
                if current = NULL then Ret NULL s'
                else case alloc_split s' sz current of
                  None \<Rightarrow> Fault
                | Some (temp, s'') \<Rightarrow> Ret temp s''))"

section \<open>Mem_Free (lines 171-342)\<close>

definition clear_busy :: "machine \<Rightarrow> addr \<Rightarrow> machine option" where
  "clear_busy s p = do {
     v \<leftarrow> get_size_status s p;
     set_size_status s p (v AND NOT 1)
   }"

text \<open>Lines 205-331: what is done once \<^verbatim>\<open>current + 1 == ptr\<close> holds for a busy
  \<^verbatim>\<open>current\<close>. Every path through these lines ends in \<^verbatim>\<open>return 0\<close>.\<close>

definition free_found :: "machine \<Rightarrow> addr \<Rightarrow> addr \<Rightarrow> addr \<Rightarrow> machine option" where
  "free_found s previous current next =
    (if previous = NULL \<and> next = NULL then clear_busy s current
     else if previous = NULL \<and> next \<noteq> NULL then do {
       n \<leftarrow> get_size_status s next;
       if n AND 1 \<noteq> 1 then do {
         c \<leftarrow> get_size_status s current;
         n' \<leftarrow> get_size_status s next;
         s1 \<leftarrow> set_size_status s current (c + sizeof_block_header + n');
         s2 \<leftarrow> clear_busy s1 current;
         nn \<leftarrow> get_next s2 next;
         set_next s2 current nn
       } else clear_busy s current
     }
     else if previous \<noteq> NULL \<and> next = NULL then do {
       p \<leftarrow> get_size_status s previous;
       if p AND 1 \<noteq> 1 then do {
         p' \<leftarrow> get_size_status s previous;
         c \<leftarrow> get_size_status s current;
         s1 \<leftarrow> set_size_status s previous (p' + sizeof_block_header + c);
         s2 \<leftarrow> clear_busy s1 previous;
         set_next s2 previous NULL
       } else clear_busy s current
     }
     else do {
       p \<leftarrow> get_size_status s previous;
       n \<leftarrow> get_size_status s next;
       if p AND 1 = 1 \<and> n AND 1 = 1 then clear_busy s current
       else if p AND 1 \<noteq> 1 \<and> n AND 1 \<noteq> 1 then do {
         c \<leftarrow> get_size_status s current;
         s1 \<leftarrow> set_size_status s previous
                (p + sizeof_block_header + c + sizeof_block_header + n);
         s2 \<leftarrow> clear_busy s1 previous;
         nn \<leftarrow> get_next s2 next;
         s3 \<leftarrow> (if nn \<noteq> NULL then set_next s2 previous nn else Some s2);
         nn1 \<leftarrow> get_next s3 next;
         (if nn1 = NULL then set_next s3 previous NULL else Some s3)
       }
       else if p AND 1 = 1 \<and> n AND 1 \<noteq> 1 then do {
         c \<leftarrow> get_size_status s current;
         s1 \<leftarrow> set_size_status s current (c + sizeof_block_header + n);
         s2 \<leftarrow> clear_busy s1 current;
         nn \<leftarrow> get_next s2 next;
         s3 \<leftarrow> (if nn \<noteq> NULL then set_next s2 current nn else Some s2);
         nn1 \<leftarrow> get_next s3 next;
         (if nn1 = NULL then set_next s3 current NULL else Some s3)
       }
       else do {
         c \<leftarrow> get_size_status s current;
         s1 \<leftarrow> set_size_status s previous (p + sizeof_block_header + c);
         s2 \<leftarrow> clear_busy s1 previous;
         cn \<leftarrow> get_next s2 current;
         set_next s2 previous cn
       }
     })"

text \<open>The \<^verbatim>\<open>while\<close> loop of lines 194-339. After an iteration that does not return,
  lines 335-337 run: \<^verbatim>\<open>previous = current; current = current->next; next = current->next\<close>,
  the last one without a test of the new \<^verbatim>\<open>current\<close>.\<close>

fun free_scan :: "nat \<Rightarrow> machine \<Rightarrow> addr \<Rightarrow> addr \<Rightarrow> addr \<Rightarrow> addr \<Rightarrow> word32 result" where
  "free_scan 0 s ptr previous current next = OutOfFuel"
| "free_scan (Suc k) s ptr previous current next =
    (if current = NULL then Ret (- 1) s
     else case get_size_status s current of
       None \<Rightarrow> Fault
     | Some c \<Rightarrow>
         if c AND 1 = 1 \<and> current + sizeof_block_header = ptr
         then (case free_found s previous current next of
                 None \<Rightarrow> Fault
               | Some s' \<Rightarrow> Ret 0 s')
         else (case get_next s current of
                 None \<Rightarrow> Fault
               | Some current' \<Rightarrow>
                   (case get_next s current' of
                      None \<Rightarrow> Fault
                    | Some next' \<Rightarrow> free_scan k s ptr current current' next')))"

definition Mem_Free :: "nat \<Rightarrow> machine \<Rightarrow> addr \<Rightarrow> word32 result" where
  "Mem_Free fuel s ptr =
    (if ptr = NULL then Ret (- 1) s
     else case get_size_status s ptr of
       None \<Rightarrow> Fault
     | Some chk \<Rightarrow>
         if chk AND 1 \<noteq> 1 then Ret (- 1) s
         else (case list_head s of
                 None \<Rightarrow> Fault
               | Some lh \<Rightarrow>
                   (case get_next s lh of
                      None \<Rightarrow> Fault
                    | Some hn \<Rightarrow>
                        free_scan fuel s ptr NULL lh (if hn \<noteq> NULL then hn else NULL))))"

section \<open>Mem_Dump (lines 353-408)\<close>

text \<open>One printed line per block, and the three totals printed at the end.\<close>

record dump_row =
  row_No :: word32
  row_busy :: bool
  row_Begin :: addr
  row_End :: addr
  row_Size :: word32
  row_t_Size :: word32
  row_t_Begin :: addr

fun dump_scan ::
  "nat \<Rightarrow> machine \<Rightarrow> addr \<Rightarrow> word32 \<Rightarrow> word32 \<Rightarrow> word32 \<Rightarrow>
   (dump_row list \<times> word32 \<times> word32) result" where
  "dump_scan 0 s current counter free_size busy_size = OutOfFuel"
| "dump_scan (Suc k) s current counter free_size busy_size =
    (if current = NULL then Ret ([], busy_size, free_size) s
     else
       let t_Begin = current;
           Begin = t_Begin + sizeof_block_header
       in case get_size_status s current of
         None \<Rightarrow> Fault
       | Some Size0 \<Rightarrow>
           let busy = (Size0 AND 1 \<noteq> 0);
               Size = (if busy then Size0 - 1 else Size0);
               t_Size = Size + sizeof_block_header;
               busy_size' = (if busy then busy_size + t_Size else busy_size);
               free_size' = (if busy then free_size else free_size + t_Size);
               End = Begin + Size;
               row = \<lparr>row_No = counter, row_busy = busy, row_Begin = Begin, row_End = End,
                      row_Size = Size, row_t_Size = t_Size, row_t_Begin = t_Begin\<rparr>
           in case get_next s current of
             None \<Rightarrow> Fault
           | Some nx \<Rightarrow>
               and_then (dump_scan k s nx (counter + 1) free_size' busy_size')
                 (\<lambda>(rows, b, f) s'. Ret (row # rows, b, f) s'))"

text \<open>The report: the rows, then "Total busy size", "Total free size" and "Total size".\<close>

definition Mem_Dump ::
  "nat \<Rightarrow> machine \<Rightarrow> (dump_row list \<times> word32 \<times> word32 \<times> word32) result" where
  "Mem_Dump fuel s =
    (case list_head s of
       None \<Rightarrow> Fault
     | Some lh \<Rightarrow>
         and_then (dump_scan fuel s lh 1 0 0)
           (\<lambda>(rows, busy_size, free_size) s'.
              Ret (rows, busy_size, free_size, busy_size + free_size) s'))"

section \<open>A concrete run\<close>

text \<open>Pages of 4096 bytes, \<^verbatim>\<open>/dev/zero\<close> opens, \<^verbatim>\<open>mmap\<close> answers the page-aligned address
  \<^verbatim>\<open>0x10000\<close>. \<open>fresh_4k\<close> is the machine that \<^verbatim>\<open>Mem_Init(4096)\<close> then leaves,
  \<open>busy_head_4k\<close> the one that a following \<^verbatim>\<open>Mem_Alloc(100)\<close> leaves, and
  \<open>odd_payload_4k\<close> the one in which the client has then stored the integer 1 in the
  first word of the block it was given.\<close>

definition os_4k :: os where
  "os_4k = \<lparr>pagesize = 4096, open_ok = True, mmap_result = Some 65536\<rparr>"

definition fresh_4k :: machine where
  "fresh_4k = (case Mem_Init os_4k boot 4096 of Ret r s \<Rightarrow> s | Fault \<Rightarrow> boot | OutOfFuel \<Rightarrow> boot)"

definition busy_head_4k :: machine where
  "busy_head_4k =
     (case Mem_Alloc (Suc 0) fresh_4k 100 of Ret p s \<Rightarrow> s | Fault \<Rightarrow> boot | OutOfFuel \<Rightarrow> boot)"

definition odd_payload_4k :: machine where
  "odd_payload_4k = (case store busy_head_4k 65544 1 of Some s \<Rightarrow> s | None \<Rightarrow> boot)"

section \<open>Evaluation\<close>

lemmas mem_defs =
  Mem_Init_def Mem_Alloc_def Mem_Free_def Mem_Dump_def alloc_split_def round_size_def
  c_rem_def free_found_def clear_busy_def get_next_def get_size_status_def set_next_def
  set_size_status_def load_def store_def in_range_def mmap_zero_def list_head_def
  allocated_once_def NULL_def sizeof_block_header_def
  Let_def word_sle_eq word_sless_alt signed_modulo_int_def

lemma Mem_Init_fresh_4k: "Mem_Init os_4k boot 4096 = Ret 0 fresh_4k"
  by (simp add: mem_defs os_4k_def boot_def fresh_4k_def)

lemma Mem_Alloc_busy_head_4k: "Mem_Alloc (Suc k) fresh_4k 100 = Ret 65544 busy_head_4k"
  by (simp add: mem_defs os_4k_def boot_def fresh_4k_def busy_head_4k_def)

lemma store_odd_payload_4k: "store busy_head_4k 65544 1 = Some odd_payload_4k"
  by (simp add: mem_defs os_4k_def boot_def fresh_4k_def busy_head_4k_def odd_payload_4k_def)

text \<open>A pointer need not be aligned: one byte above the payload address the four
  bytes read at line 178 are still zero, and the call returns -1.\<close>

lemma Mem_Free_unaligned_pointer:
  "Mem_Free fuel busy_head_4k 65545 = Ret (- 1) busy_head_4k"
  by (simp add: mem_defs os_4k_def boot_def fresh_4k_def busy_head_4k_def)

section \<open>Where the two scans stop\<close>

text \<open>The scan of \<^verbatim>\<open>Mem_Alloc\<close> ends at a busy block, whatever its size and whatever
  follows it.\<close>

lemma alloc_scan_stops_at_busy:
  "current \<noteq> NULL \<Longrightarrow> get_size_status s current = Some ss \<Longrightarrow> ss AND 1 = 1 \<Longrightarrow>
   alloc_scan (Suc n) s block_size current = Ret current s"
  by simp

text \<open>The scan of \<^verbatim>\<open>Mem_Free\<close> cannot step over the last block: when the block under
  \<^verbatim>\<open>current\<close> is not the one looked for and its link is \<^verbatim>\<open>NULL\<close>, line 337 reads through
  that \<^verbatim>\<open>NULL\<close>, and the process ends where the page at address 0 is not mapped.\<close>

lemma free_scan_faults_after_last_block:
  "current \<noteq> NULL \<Longrightarrow> get_size_status s current = Some c \<Longrightarrow>
   c AND 1 \<noteq> 1 \<or> current + sizeof_block_header \<noteq> ptr \<Longrightarrow>
   get_next s current = Some NULL \<Longrightarrow> get_next s NULL = None \<Longrightarrow>
   free_scan (Suc k) s ptr previous current nxt = Fault"
  by (auto simp: NULL_def)

section \<open>The claims\<close>

text \<open>
  C9. The claim: \<^verbatim>\<open>Mem_Free\<close> begins by reading the machine word stored at the caller's
  address itself and fails at once when that word is even. The word the code tests is
  not the one at the address. After \<^verbatim>\<open>Mem_Init(4096)\<close>, \<^verbatim>\<open>p = Mem_Alloc(16)\<close> and
  \<^verbatim>\<open>Mem_Alloc(8)\<close>, the word stored at \<^verbatim>\<open>p\<close> is 65552, an even number, and \<^verbatim>\<open>Mem_Free(p)\<close>
  does not fail: it returns 0 and rewrites the \<^verbatim>\<open>size_status\<close> of the header in front of
  \<^verbatim>\<open>p\<close> from 9 to 8.
\<close>

theorem Mem_Free_even_word_at_ptr_counterexample:
  "value_of
     (and_then (Mem_Init os_4k boot 4096) (\<lambda>_ s.
      and_then (Mem_Alloc (Suc 0) s 16) (\<lambda>p s.
      and_then (Mem_Alloc (Suc 0) s 8) (\<lambda>_ s.
      and_then (Ret (load s p, get_size_status s (p - 8)) s) (\<lambda>before s.
      and_then (Mem_Free (Suc 0) s p) (\<lambda>r s.
        Ret (p, before, r, get_size_status s (p - 8)) s))))))
   = Some (65544, (Some 65552, Some 9), 0, Some 8)"
  by (simp add: mem_defs os_4k_def boot_def)

text \<open>
  C9, as amended. Line 178 reads \<^verbatim>\<open>check->size_status\<close> with \<^verbatim>\<open>check = ptr\<close>: the member
  \<^verbatim>\<open>size_status\<close> of a header laid over the caller's address, which is the integer stored
  four bytes above that address (neither the header in front of the pointer nor the
  word at the pointer). For every non-null pointer, aligned or not and wherever it
  points, when that integer can be read and has low-order bit 0, \<^verbatim>\<open>Mem_Free\<close> returns -1
  at once and leaves the machine as it was. The payload address of a busy block is no
  exception.
\<close>

theorem Mem_Free_rejects_even_size_status_at_ptr:
  "ptr \<noteq> NULL \<Longrightarrow> load s (ptr + 4) = Some v \<Longrightarrow> v AND 1 = 0 \<Longrightarrow>
   Mem_Free fuel s ptr = Ret (- 1) s"
  by (simp add: Mem_Free_def get_size_status_def)

text \<open>In \<open>odd_payload_4k\<close> the address 65544 is the payload of the busy first block (the
  header in front of it holds 101), the word at the address is the odd number 1 that
  the client stored, the word four bytes above is still zero, and the call fails.\<close>

theorem Mem_Free_rejects_even_size_status_at_ptr_witness:
  "(65544 :: addr) \<noteq> NULL \<and> load odd_payload_4k (65544 + 4) = Some 0 \<and>
   (0 :: word32) AND 1 = 0 \<and> load odd_payload_4k 65544 = Some 1 \<and>
   get_size_status odd_payload_4k (65544 - 8) = Some 101 \<and>
   Mem_Free 5 odd_payload_4k 65544 = Ret (- 1) odd_payload_4k"
proof -
  have p: "(65544 :: addr) \<noteq> NULL" by (simp add: NULL_def)
  have g: "load odd_payload_4k (65544 + 4) = Some 0"
    by (simp add: mem_defs os_4k_def boot_def fresh_4k_def busy_head_4k_def odd_payload_4k_def)
  have w: "load odd_payload_4k 65544 = Some 1"
    by (simp add: mem_defs os_4k_def boot_def fresh_4k_def busy_head_4k_def odd_payload_4k_def)
  have h: "get_size_status odd_payload_4k (65544 - 8) = Some 101"
    by (simp add: mem_defs os_4k_def boot_def fresh_4k_def busy_head_4k_def odd_payload_4k_def)
  have z: "(0 :: word32) AND 1 = 0" by simp
  from p g z w h Mem_Free_rejects_even_size_status_at_ptr [OF p g z, of 5]
  show ?thesis by simp
qed

text \<open>
  C10. The claim: after a successful \<^verbatim>\<open>Mem_Init\<close> the list head refers to the block at
  the lowest address of the region, and no call of \<^verbatim>\<open>Mem_Alloc\<close>, \<^verbatim>\<open>Mem_Free\<close> or
  \<^verbatim>\<open>Mem_Dump\<close> changes it; the comment at lines 30-31 says the same of \<^verbatim>\<open>list_head\<close>. No
  statement of these functions assigns the variable, but \<^verbatim>\<open>Mem_Alloc\<close> stores through
  \<^verbatim>\<open>split = current + size\<close> (lines 135-151) with a size it never checks. After
  \<^verbatim>\<open>Mem_Init(4096)\<close> and \<^verbatim>\<open>Mem_Alloc(100)\<close> the list head is 65536, the base of the region.
  \<^verbatim>\<open>Mem_Alloc(134455332)\<close>, the distance from there to the cell of \<^verbatim>\<open>list_head\<close> at
  \<^verbatim>\<open>0x0804a024\<close>, stops at the busy first block, so \<^verbatim>\<open>split\<close> is the address of the
  variable and line 140 stores \<^verbatim>\<open>current->next\<close> in it: the call returns 65544 and the
  list head is 65636 from then on.
\<close>

theorem Mem_Alloc_overwrites_list_head:
  "value_of
     (and_then (Mem_Init os_4k boot 4096) (\<lambda>_ s.
      and_then (Mem_Alloc (Suc k) s 100) (\<lambda>_ s.
      and_then (Ret (list_head s, region_base s, addr_list_head s - 65536) s) (\<lambda>before s.
      and_then (Mem_Alloc (Suc m) s 134455332) (\<lambda>p s.
        Ret (before, p, list_head s) s)))))
   = Some ((Some 65536, 65536, 134455332), 65544, Some 65636)"
  by (simp add: mem_defs os_4k_def boot_def)

text \<open>
  C1. The claim: \<^verbatim>\<open>Mem_Alloc\<close> walks the list in address order, skips every busy block and
  takes the first free block that is large enough. The loop of line 124 goes on only
  while the block is too small \<^emph>\<open>and\<close> free, so it stops at the first busy block. Below,
  \<^verbatim>\<open>Mem_Init(4096)\<close>, then \<^verbatim>\<open>Mem_Alloc(100)\<close>, then \<^verbatim>\<open>Mem_Alloc(200)\<close>: the first block is busy
  (its \<^verbatim>\<open>size_status\<close> is 101) when the second request arrives, a free block of 3980
  bytes follows it, and the second call returns the payload of the first block again.
\<close>

theorem Mem_Alloc_takes_busy_block:
  "value_of
     (and_then (Mem_Init os_4k boot 4096) (\<lambda>_ s.
      and_then (Mem_Alloc (Suc k) s 100) (\<lambda>p1 s.
      and_then (Ret (get_size_status s (p1 - 8), get_size_status s (p1 - 8 + 100)) s)
        (\<lambda>between s.
      and_then (Mem_Alloc (Suc m) s 200) (\<lambda>p2 s. Ret (p1, between, p2) s)))))
   = Some (65544, (Some 101, Some 3980), 65544)"
  by (simp add: mem_defs os_4k_def boot_def)

text \<open>
  C2. The claim: a pointer that is not the payload address of a busy list member makes
  \<^verbatim>\<open>Mem_Free\<close> fail without a store. Two calls where it does not return at all. First,
  after \<^verbatim>\<open>Mem_Init(4096)\<close> and \<^verbatim>\<open>p = Mem_Alloc(40)\<close>, the call \<^verbatim>\<open>Mem_Free(p - 8)\<close> with the
  address of the header instead of the payload: line 178 reads an odd word there and
  lets it pass, the scan matches no block, and line 337 reads through the null
  \<^verbatim>\<open>current\<close>. Second, a block freed twice: after \<^verbatim>\<open>Mem_Alloc(16)\<close> and \<^verbatim>\<open>Mem_Alloc(8)\<close>
  (which return the same address) the first \<^verbatim>\<open>Mem_Free\<close> of it returns 0 and the second
  one faults in the same way.
\<close>

theorem Mem_Free_faults_on_invalid_pointer:
  "and_then (Mem_Init os_4k boot 4096) (\<lambda>_ s.
   and_then (Mem_Alloc (Suc k) s 40) (\<lambda>p s. Mem_Free (Suc (Suc m)) s (p - 8))) = Fault
   \<and>
   and_then (Mem_Init os_4k boot 4096) (\<lambda>_ s.
   and_then (Mem_Alloc (Suc k) s 16) (\<lambda>p s.
   and_then (Mem_Alloc (Suc k) s 8) (\<lambda>_ s.
   and_then (Mem_Free (Suc k) s p) (\<lambda>r s.
   if r = 0 then Mem_Free (Suc (Suc (Suc m))) s p else Ret r s)))) = Fault"
  by (simp add: mem_defs os_4k_def boot_def)

text \<open>
  C3. The claim: the selected block is split into the allocated block and a free block
  that follows it and covers the remainder, and a block whose remainder is smaller than
  a header is handed out whole. After \<^verbatim>\<open>Mem_Init(4096)\<close>, \<^verbatim>\<open>Mem_Alloc(24)\<close> returns 65544,
  so the payload is the 24 bytes up to 65568; line 135 puts the header of the new free
  block at 65560, inside that payload. And \<^verbatim>\<open>Mem_Alloc(4084)\<close> on the fresh region, whose
  one free block has 4088 bytes of payload, allocates nothing: it returns \<^verbatim>\<open>NULL\<close>.
\<close>

theorem Mem_Alloc_split_inside_payload:
  "value_of
     (and_then (Mem_Init os_4k boot 4096) (\<lambda>_ s.
      and_then (Mem_Alloc (Suc k) s 24) (\<lambda>p s.
        Ret (p, get_size_status s (p - 8), get_next s (p - 8), get_size_status s 65560) s)))
   = Some (65544, Some 25, Some 65560, Some 4056)
   \<and>
   value_of
     (and_then (Mem_Init os_4k boot 4096) (\<lambda>_ s.
      and_then (Mem_Alloc (Suc (Suc k)) s 4084) (\<lambda>p s.
        Ret (p, get_size_status s 65536) s)))
   = Some (NULL, Some 4088)"
  by (simp add: mem_defs os_4k_def boot_def)

text \<open>
  C4. The claim: after a completed \<^verbatim>\<open>Mem_Free\<close>, and after any sequence of calls from a
  fresh region, no two neighbours in the list are both free. After \<^verbatim>\<open>Mem_Init(4096)\<close>
  and \<^verbatim>\<open>Mem_Alloc\<close> of 100, 16, 8 and 20 bytes, \<^verbatim>\<open>Mem_Free(65544)\<close> returns 0, and the list
  that \<^verbatim>\<open>Mem_Dump\<close> then prints ends in two free blocks. (Every one of the four
  allocations returned 65544; the one of 20 bytes wrote the link of its new header over
  the \<^verbatim>\<open>size_status\<close> of the header at 65552, which reads as free since.)
\<close>

theorem Mem_Free_leaves_adjacent_free_blocks:
  "value_of
     (and_then (Mem_Init os_4k boot 4096) (\<lambda>_ s.
      and_then (Mem_Alloc (Suc k) s 100) (\<lambda>_ s.
      and_then (Mem_Alloc (Suc k) s 16) (\<lambda>_ s.
      and_then (Mem_Alloc (Suc k) s 8) (\<lambda>_ s.
      and_then (Mem_Alloc (Suc k) s 20) (\<lambda>_ s.
      and_then (Mem_Free (Suc k) s 65544) (\<lambda>r s.
      and_then (Mem_Dump (Suc (Suc (Suc (Suc (Suc (Suc m)))))) s) (\<lambda>(rows, _) s.
        Ret (r, map row_t_Begin rows, map row_busy rows) s))))))))
   = Some (0, [65536, 65556, 65544, 65552, 65636], [False, True, True, False, False])"
  by (simp add: mem_defs os_4k_def boot_def)

text \<open>
  C5. The claim: in every reachable state the blocks tile the region, each block ending
  where the next begins and the last one at the end of the region. After
  \<^verbatim>\<open>Mem_Init(4096)\<close> (region 65536 to 69632) and \<^verbatim>\<open>Mem_Alloc(100)\<close>, \<^verbatim>\<open>Mem_Dump\<close> prints a
  first block from 65536 to 65644 and a second one that begins at 65636 and ends at
  69624: they overlap by the eight bytes of a header and the last eight bytes of the
  region are in no block.
\<close>

theorem blocks_overlap_after_Mem_Alloc:
  "value_of
     (and_then (Mem_Init os_4k boot 4096) (\<lambda>_ s.
      and_then (Mem_Alloc (Suc k) s 100) (\<lambda>_ s.
      and_then (Mem_Dump (Suc (Suc (Suc m))) s) (\<lambda>(rows, _) s.
        Ret (map (\<lambda>r. (row_t_Begin r, row_End r)) rows, region_base s + 4096) s))))
   = Some ([(65536, 65644), (65636, 69624)], 69632)"
  by (simp add: mem_defs os_4k_def boot_def)

text \<open>
  C6. The claim: on a fresh region, \<^verbatim>\<open>Mem_Alloc(n)\<close> followed by \<^verbatim>\<open>Mem_Free\<close> of the pointer
  it returned gives back the single free block. After \<^verbatim>\<open>Mem_Init(4096)\<close> and
  \<^verbatim>\<open>p = Mem_Alloc(100)\<close>, \<^verbatim>\<open>Mem_Free(p)\<close> returns -1, because line 178 tests the still
  zero payload and not the header in front of it, and the list keeps its two blocks, the
  first one busy.
\<close>

theorem Mem_Free_after_Mem_Alloc_fails:
  "value_of
     (and_then (Mem_Init os_4k boot 4096) (\<lambda>_ s.
      and_then (Mem_Alloc (Suc k) s 100) (\<lambda>p s.
      and_then (Mem_Free fuel s p) (\<lambda>r s.
      and_then (Mem_Dump (Suc (Suc (Suc m))) s) (\<lambda>(rows, _) s.
        Ret (p, r, map row_busy rows, map row_Size rows) s)))))
   = Some (65544, - 1, [True, False], [100, 3980])"
  by (simp add: mem_defs os_4k_def boot_def)

text \<open>
  C7. The claim: \<^verbatim>\<open>Mem_Init(0)\<close>, \<^verbatim>\<open>Mem_Init(-5)\<close>, \<^verbatim>\<open>Mem_Alloc(0)\<close> and \<^verbatim>\<open>Mem_Alloc(-1)\<close>
  fail and change no block. The two calls of \<^verbatim>\<open>Mem_Init\<close> do return -1 and leave the
  machine alone. \<^verbatim>\<open>Mem_Alloc\<close> has no test of its argument: on the fresh region both
  \<^verbatim>\<open>Mem_Alloc(0)\<close> and \<^verbatim>\<open>Mem_Alloc(-1)\<close> return the address 65544, and the first header,
  which held the link \<^verbatim>\<open>NULL\<close> and the size 4088, then holds a link to itself and the
  \<^verbatim>\<open>size_status\<close> 1.
\<close>

theorem Mem_Alloc_accepts_nonpositive_size:
  "Mem_Init os_4k boot 0 = Ret (- 1) boot \<and> Mem_Init os_4k boot (- 5) = Ret (- 1) boot \<and>
   get_next fresh_4k 65536 = Some NULL \<and> get_size_status fresh_4k 65536 = Some 4088 \<and>
   value_of (and_then (Mem_Alloc (Suc k) fresh_4k 0) (\<lambda>p s.
     Ret (p, get_next s 65536, get_size_status s 65536) s))
   = Some (65544, Some 65536, Some 1) \<and>
   value_of (and_then (Mem_Alloc (Suc k) fresh_4k (- 1)) (\<lambda>p s.
     Ret (p, get_next s 65536, get_size_status s 65536) s))
   = Some (65544, Some 65536, Some 1)"
  by (simp add: mem_defs os_4k_def boot_def fresh_4k_def)

text \<open>
  C8. The claim: the scan of \<^verbatim>\<open>Mem_Free\<close> never reads the link of a null \<^verbatim>\<open>current\<close>.
  After \<^verbatim>\<open>Mem_Init(4096)\<close> and \<^verbatim>\<open>Mem_Alloc(100)\<close> the list has two blocks, the second one
  (at 65636) with the link \<^verbatim>\<open>NULL\<close>. \<^verbatim>\<open>Mem_Free(65536)\<close> passes line 178, matches neither
  block, sets \<^verbatim>\<open>current\<close> to that \<^verbatim>\<open>NULL\<close> in line 336 and reads \<^verbatim>\<open>current->next\<close> in
  line 337.
\<close>

theorem Mem_Free_reads_through_null:
  "get_next busy_head_4k 65636 = Some NULL \<and> get_next busy_head_4k NULL = None \<and>
   Mem_Free (Suc (Suc m)) busy_head_4k 65536 = Fault"
  by (simp add: mem_defs os_4k_def boot_def fresh_4k_def busy_head_4k_def)


end
